theory Spec2Isabelle
  imports Complex_Main
begin

section \<open>Python numerics\<close>

text \<open>
  The program computes on Python floats. Except where said otherwise they are modelled
  as exact reals: every arithmetic operation is the mathematical one, without binary
  rounding. This is exact wherever the doubles of the program are (halving, sums and
  products of small integers and of binary fractions) and an idealisation elsewhere:
  a value that the program holds as the double next to a decimal tie can round to the
  other neighbour in \<open>py_round_nd\<close>. The scenarios evaluated below stay away from such
  ties. The one property that is about the rounding itself, the sum identity of the
  capital allocation, is stated on \<open>fl64\<close>, the rounding to the nearest double, in the
  section after this one. Integer arguments (leverage, decimal precisions, funding
  periods) are \<open>int\<close> or \<open>nat\<close>. Where Python raises (division by zero, a missing
  dictionary key, a failed transport call) the model returns an error value.
\<close>

datatype py_error = ZeroDivisionError | KeyError | TransportError

definition py_round :: "real \<Rightarrow> int" where
  \<comment> \<open>\<^verbatim>\<open>round(x)\<close>: the nearest integer, a tie going to the even neighbour.\<close>
  "py_round x =
     (let f = \<lfloor>x\<rfloor>; d = x - of_int f
      in if d < 1 / 2 then f
         else if 1 / 2 < d then f + 1
         else if even f then f else f + 1)"

definition py_round_nd :: "real \<Rightarrow> nat \<Rightarrow> real" where
  \<comment> \<open>\<^verbatim>\<open>round(x, n)\<close> for a decimal precision \<open>n \<ge> 0\<close>, of the real value \<open>x\<close>: Python rounds
      the exact value of the double it holds, to the even neighbour at a tie.\<close>
  "py_round_nd x n = of_int (py_round (x * 10 ^ n)) / 10 ^ n"

definition py_int :: "real \<Rightarrow> int" where
  \<comment> \<open>\<^verbatim>\<open>int(x)\<close>: truncation towards zero.\<close>
  "py_int x = (if 0 \<le> x then \<lfloor>x\<rfloor> else \<lceil>x\<rceil>)"

definition py_fmod :: "real \<Rightarrow> real \<Rightarrow> real" where
  \<comment> \<open>\<^verbatim>\<open>x % y\<close> on floats, \<open>y \<noteq> 0\<close>: the remainder takes the sign of the divisor.\<close>
  "py_fmod x y = x - y * of_int \<lfloor>x / y\<rfloor>"

fun contains :: "string \<Rightarrow> string \<Rightarrow> bool" where
  \<comment> \<open>\<^verbatim>\<open>sub in s\<close> on strings.\<close>
  "contains sub [] = (sub = [])"
| "contains sub (c # cs) = (take (length sub) (c # cs) = sub \<or> contains sub cs)"

section \<open>Binary64 rounding\<close>

text \<open>
  Python's float is the IEEE 754 binary64 format: 53 significant bits, rounded to the
  nearest value with ties to the even significand. \<open>pow2 k\<close> is \<open>2\<close> to the integer power
  \<open>k\<close>. \<open>binade n x\<close> is the exponent \<open>e\<close> with \<open>2^e \<le> x < 2^(e + 1)\<close> of a positive \<open>x\<close>, found in
  at most \<open>n\<close> halvings or doublings; 1100 steps reach every finite double. \<open>fl64 x\<close> is
  the double nearest to \<open>x\<close>: the spacing of the doubles around \<open>x\<close> is \<open>2^(e - 52)\<close>, and below
  \<open>2^(-1022)\<close> it stays \<open>2^(-1074)\<close> (subnormal values). Infinities are left out: \<open>fl64\<close> is the
  double for \<open>\<bar>x\<bar> < 2^1024\<close>. \<open>f64_normal\<close> is the range in which the relative rounding
  error is at most \<open>2^(-53)\<close>.
\<close>

definition pow2 :: "int \<Rightarrow> real" where
  "pow2 k = (if 0 \<le> k then 2 ^ nat k else 1 / 2 ^ nat (- k))"




section \<open>The exchange client (bybit_client.py), as the engine sees it\<close>

text \<open>
  The transport is outside the program's core. A client is the table of answers the
  exchange gives during one operation; \<open>None\<close> stands for every way a request fails
  (a non-zero \<^verbatim>\<open>retCode\<close>, an empty result list, an exception caught by the caller).
  Instrument data arrives with the lot-size and price filters already read as numbers:
  a step string such as \<^verbatim>\<open>"0.001"\<close> is its value together with its count of decimals.
\<close>

datatype category = Spot | Linear

datatype side = Buy | Sell

datatype order_response =
    Order_ok "string option"    \<comment> \<open>\<^verbatim>\<open>retCode == 0\<close>, with the order id of the result, if any\<close>
  | Order_rejected string       \<comment> \<open>\<^verbatim>\<open>retCode != 0\<close>, with \<^verbatim>\<open>retMsg\<close>\<close>
  | Order_raised                \<comment> \<open>the call raised an exception\<close>

record instrument =
  minOrderQty :: real
  maxOrderQty :: real
  basePrecision :: real
  basePrecision_decimals :: nat
  qtyStep :: real
  qtyStep_decimals :: nat
  minOrderAmt :: real
  maxOrderAmt :: real
  minNotionalValue :: real
  tickSize_decimals :: nat
  maxLeverage :: real
  inst_status :: string

record exchange_position =
  ep_symbol :: string
  ep_size :: real
  ep_side :: side
  ep_avgPrice :: real
  ep_unrealisedPnl :: real

record client =
  demo :: bool
  get_instruments_info :: "category \<Rightarrow> string \<Rightarrow> instrument option"
  get_spot_price :: "string \<Rightarrow> real option"
  get_futures_price :: "string \<Rightarrow> real option"
  get_funding_rate :: "string \<Rightarrow> real option"
  place_order :: "string \<Rightarrow> side \<Rightarrow> real \<Rightarrow> category \<Rightarrow> order_response"
  set_leverage :: "string \<Rightarrow> int \<Rightarrow> bool option"
  cancel_order :: "string \<Rightarrow> string \<Rightarrow> bool option"
  get_positions :: "exchange_position option list option"
  get_account_balance :: "(string \<times> real) option list option"


section \<open>Trading rules (trading_rules.py)\<close>

record market_rules =
  min_order_qty :: real
  max_order_qty :: real
  qty_step :: real
  min_order_amt :: real
  max_order_amt :: real
  price_precision :: nat
  qty_precision :: nat
  max_leverage :: "real option"   \<comment> \<open>the key is absent from rules read off a spot instrument\<close>
  status :: string

record rules =
  rules_symbol :: string
  spot :: market_rules
  linear :: market_rules
  last_updated :: real

record rules_manager =
  rules_cache :: "string \<rightharpoonup> rules"
  cache_time :: real

definition cache_duration :: real where
  "cache_duration = 3600"

definition new_rules_manager :: rules_manager where
  "new_rules_manager = \<lparr>rules_cache = Map.empty, cache_time = 0\<rparr>"

definition get_default_rules :: market_rules where
  "get_default_rules =
     \<lparr>min_order_qty = 0.001, max_order_qty = 1000, qty_step = 0.001,
      min_order_amt = 5, max_order_amt = 100000,
      price_precision = 2, qty_precision = 3,
      max_leverage = Some 5, status = ''Trading''\<rparr>"

definition get_spot_rules :: "client \<Rightarrow> string \<Rightarrow> market_rules" where
  "get_spot_rules c symbol =
     (case get_instruments_info c Spot symbol of
        Some i \<Rightarrow>
          \<lparr>min_order_qty = minOrderQty i, max_order_qty = maxOrderQty i,
           qty_step = basePrecision i,
           min_order_amt = minOrderAmt i, max_order_amt = maxOrderAmt i,
           price_precision = tickSize_decimals i,
           qty_precision = basePrecision_decimals i,
           max_leverage = None, status = inst_status i\<rparr>
      | None \<Rightarrow> get_default_rules)"

definition get_linear_rules :: "client \<Rightarrow> string \<Rightarrow> market_rules" where
  "get_linear_rules c symbol =
     (case get_instruments_info c Linear symbol of
        Some i \<Rightarrow>
          \<lparr>min_order_qty = minOrderQty i, max_order_qty = maxOrderQty i,
           qty_step = qtyStep i,
           min_order_amt = minNotionalValue i,
           max_order_amt = maxOrderQty i * 100000,
           price_precision = tickSize_decimals i,
           qty_precision = qtyStep_decimals i,
           max_leverage = Some (maxLeverage i), status = inst_status i\<rparr>
      | None \<Rightarrow> get_default_rules)"

definition is_cache_valid :: "real \<Rightarrow> rules_manager \<Rightarrow> bool" where
  "is_cache_valid now rm = (now - cache_time rm < cache_duration)"

definition fetch_rules :: "client \<Rightarrow> real \<Rightarrow> string \<Rightarrow> rules" where
  \<comment> \<open>the miss path of \<^verbatim>\<open>get_trading_rules\<close>: one query per market, stamped with the clock\<close>
  "fetch_rules c now symbol =
     \<lparr>rules_symbol = symbol, spot = get_spot_rules c symbol,
      linear = get_linear_rules c symbol, last_updated = now\<rparr>"

definition get_trading_rules ::
  "client \<Rightarrow> real \<Rightarrow> rules_manager \<Rightarrow> string \<Rightarrow> bool \<Rightarrow> rules \<times> rules_manager" where
  "get_trading_rules c now rm symbol force_refresh =
     (case (if \<not> force_refresh \<and> is_cache_valid now rm then rules_cache rm symbol else None) of
        Some r \<Rightarrow> (r, rm)
      | None \<Rightarrow>
          (let r = fetch_rules c now symbol
           in (r, rm\<lparr>rules_cache := (rules_cache rm)(symbol \<mapsto> r), cache_time := now\<rparr>)))"

definition served_from_cache ::
  "real \<Rightarrow> rules_manager \<Rightarrow> string \<Rightarrow> bool \<Rightarrow> bool" where
  \<comment> \<open>the condition under which \<^verbatim>\<open>get_trading_rules\<close> returns at its first \<^verbatim>\<open>return\<close>\<close>
  "served_from_cache now rm symbol force_refresh =
     (\<not> force_refresh \<and> is_cache_valid now rm \<and> rules_cache rm symbol \<noteq> None)"

definition get_demo_min_qty :: "string \<Rightarrow> real" where
  "get_demo_min_qty symbol =
     (case map_of
        [(''BTCUSDT'', 5), (''ETHUSDT'', 5), (''SOLUSDT'', 5), (''ADAUSDT'', 10),
         (''DOTUSDT'', 5), (''LINKUSDT'', 5), (''UNIUSDT'', 5), (''LTCUSDT'', 5),
         (''BCHUSDT'', 5), (''XRPUSDT'', 10), (''AVAXUSDT'', 5), (''ATOMUSDT'', 5),
         (''NEARUSDT'', 10)] symbol of
        Some q \<Rightarrow> q
      | None \<Rightarrow> 5)"

definition estimated_price :: "string \<Rightarrow> real" where
  "estimated_price symbol =
     (if contains ''ETH'' symbol then 4500 else if contains ''BTC'' symbol then 50000 else 100)"

definition get_min_investment_amount ::
  "client \<Rightarrow> real \<Rightarrow> rules_manager \<Rightarrow> string \<Rightarrow> int \<Rightarrow> (py_error + real) \<times> rules_manager" where
  "get_min_investment_amount c now rm symbol leverage =
     (case get_trading_rules c now rm symbol False of (r, rm') \<Rightarrow>
        (if demo c then
           (let demo_min_amount = get_demo_min_qty symbol * estimated_price symbol
            in if leverage + 1 = 0 then Inl ZeroDivisionError
               else
                 (let spot_ratio = of_int leverage / of_int (leverage + 1) :: real
                  in if spot_ratio = 0 then Inl ZeroDivisionError
                     else Inr (py_round_nd (demo_min_amount / spot_ratio * 1.2) 2)))
         else if leverage = 0 then Inl ZeroDivisionError
         else
           (let spot_min = min_order_amt (spot r);
                linear_min = min_order_amt (linear r) / of_int leverage
            in Inr (py_round_nd (max spot_min linear_min * 1.2) 2)),
         rm'))"

datatype validation =
    Valid
  | Qty_below_min
  | Qty_above_max
  | Qty_not_step_multiple
  | Amount_below_min
  | Amount_above_max

definition check_order :: "market_rules \<Rightarrow> real \<Rightarrow> real \<Rightarrow> validation" where
  \<comment> \<open>the checks of \<^verbatim>\<open>validate_order_params\<close> on the rule of one market, in the source's order\<close>
  "check_order rule qty price =
     (if qty < min_order_qty rule then Qty_below_min
      else if max_order_qty rule < qty then Qty_above_max
      else if 0 < qty_step rule
              \<and> 1 / 10 ^ 10 < \<bar>py_fmod qty (qty_step rule)\<bar>
              \<and> 1 / 10 ^ 10 < \<bar>py_fmod qty (qty_step rule) - qty_step rule\<bar>
           then Qty_not_step_multiple
      else if qty * price < min_order_amt rule then Amount_below_min
      else if max_order_amt rule < qty * price then Amount_above_max
      else Valid)"

definition validate_order_params ::
  "client \<Rightarrow> real \<Rightarrow> rules_manager \<Rightarrow> string \<Rightarrow> real \<Rightarrow> real \<Rightarrow> category
     \<Rightarrow> validation \<times> rules_manager" where
  "validate_order_params c now rm symbol qty price cat =
     (case get_trading_rules c now rm symbol False of (r, rm') \<Rightarrow>
        (check_order (case cat of Spot \<Rightarrow> spot r | Linear \<Rightarrow> linear r) qty price, rm'))"

record tips =
  tips_symbol :: string
  min_investment :: real
  spot_rules :: market_rules
  linear_rules :: market_rules
  tips_max_leverage :: real

definition get_trading_tips ::
  "client \<Rightarrow> real \<Rightarrow> rules_manager \<Rightarrow> string \<Rightarrow> (py_error + tips) \<times> rules_manager" where
  \<comment> \<open>the advisory strings of \<^verbatim>\<open>recommendations\<close> are left out: nothing reads them\<close>
  "get_trading_tips c now rm symbol =
     (case get_trading_rules c now rm symbol False of (r, rm1) \<Rightarrow>
        (case get_min_investment_amount c now rm1 symbol 1 of
           (Inl e, rm2) \<Rightarrow> (Inl e, rm2)
         | (Inr m, rm2) \<Rightarrow>
             (case max_leverage (linear r) of
                None \<Rightarrow> (Inl KeyError, rm2)
              | Some ml \<Rightarrow>
                  (Inr \<lparr>tips_symbol = symbol, min_investment = m,
                        spot_rules = spot r, linear_rules = linear r,
                        tips_max_leverage = ml\<rparr>, rm2))))"

section \<open>The arbitrage engine (arbitrage_engine.py)\<close>

definition calculate_risk_score :: "real \<Rightarrow> real \<Rightarrow> real" where
  "calculate_risk_score price_diff_percent funding_rate =
     (let price_risk = min (\<bar>price_diff_percent\<bar> / 2) 1;
          funding_risk = max 0 (- funding_rate * 100);
          risk_score = price_risk * 0.7 + funding_risk * 0.3
      in min risk_score 1)"

definition calculate_capital_allocation :: "real \<Rightarrow> int \<Rightarrow> py_error + real \<times> real" where
  "calculate_capital_allocation total_amount leverage =
     (let spot_amount = total_amount / 2
      in if leverage = 0 then Inl ZeroDivisionError
         else Inr (spot_amount, spot_amount / of_int leverage))"




subsection \<open>Data\<close>

text \<open>
  \<^verbatim>\<open>Position\<close>, \<^verbatim>\<open>TradingResult\<close> and \<^verbatim>\<open>ClosedPosition\<close> share field names in the source;
  the fields carry the prefixes \<open>pos_\<close>, \<open>tr_\<close> and \<open>cp_\<close> here. The formatted message of a
  \<^verbatim>\<open>TradingResult\<close> is the constructor that says which \<^verbatim>\<open>return\<close> produced it.
\<close>

record position =
  pos_symbol :: string
  pos_spot_qty :: real
  pos_futures_qty :: real
  pos_spot_avg_price :: real
  pos_futures_avg_price :: real
  pos_unrealized_pnl :: real
  pos_funding_paid :: real
  pos_entry_time :: real
  pos_leverage :: int
  pos_total_investment :: real
  pos_spot_investment :: real
  pos_futures_investment :: real

datatype message =
    Leverage_out_of_range
  | Amount_below_minimum
  | Price_unavailable
  | Invalid_quantity
  | Spot_params_invalid validation
  | Futures_params_invalid validation
  | Spot_buy_failed string
  | Futures_sell_failed string
  | Arbitrage_ok
  | Arbitrage_exception py_error
  | Position_not_found
  | Spot_sell_failed string
  | Futures_buy_failed string
  | Close_ok
  | Close_exception py_error

record trading_result =
  tr_success :: bool
  tr_message :: message
  tr_spot_order_id :: "string option"
  tr_futures_order_id :: "string option"
  tr_spot_qty :: real
  tr_futures_qty :: real
  tr_spot_price :: real
  tr_futures_price :: real
  tr_total_cost :: real

record closed_position =
  cp_symbol :: string
  cp_spot_qty :: real
  cp_futures_qty :: real
  cp_spot_avg_price :: real
  cp_futures_avg_price :: real
  cp_close_spot_qty :: real
  cp_close_futures_qty :: real
  cp_close_spot_price :: real
  cp_close_futures_price :: real
  cp_total_pnl :: real
  cp_entry_time :: real
  cp_close_time :: real
  cp_leverage :: int
  cp_total_investment :: real
  cp_spot_investment :: real
  cp_futures_investment :: real
  cp_funding_paid :: real

record engine =
  positions :: "string \<rightharpoonup> position"
  closed_positions :: "closed_position list"
  rules_manager :: rules_manager

definition new_engine :: engine where
  "new_engine =
     \<lparr>positions = Map.empty, closed_positions = [], rules_manager = new_rules_manager\<rparr>"

definition failed :: "message \<Rightarrow> trading_result" where
  \<comment> \<open>\<^verbatim>\<open>TradingResult(False, msg)\<close>, the other fields at their defaults\<close>
  "failed msg =
     \<lparr>tr_success = False, tr_message = msg, tr_spot_order_id = None,
      tr_futures_order_id = None, tr_spot_qty = 0, tr_futures_qty = 0,
      tr_spot_price = 0, tr_futures_price = 0, tr_total_cost = 0\<rparr>"

definition price_missing :: "real option \<Rightarrow> bool" where
  \<comment> \<open>\<^verbatim>\<open>not price\<close>: \<^verbatim>\<open>None\<close> and \<^verbatim>\<open>0.0\<close> are both falsy\<close>
  "price_missing p = (p = None \<or> p = Some 0)"

definition SPOT_FEE_RATE :: real where
  "SPOT_FEE_RATE = 0.001"

definition FUTURES_FEE_RATE :: real where
  "FUTURES_FEE_RATE = 0.00055"


subsection \<open>Ledger reconciliation: \<^verbatim>\<open>get_positions_summary\<close>\<close>

text \<open>
  The two loops of \<^verbatim>\<open>get_positions_summary\<close> run over the exchange's futures positions and
  over the coins of the wallet (the accounts' coin lists, one after the other). A list
  entry \<open>None\<close> is an entry whose fields do not parse: the exception leaves the loop with
  the records adopted so far. A \<^verbatim>\<open>Position\<close> taken from \<^verbatim>\<open>self.positions\<close> is updated in
  place, so the pair carries \<^verbatim>\<open>self.positions\<close> next to \<^verbatim>\<open>actual_positions\<close>. The returned
  dictionary of totals is for display and is left out; the operation is its effect on
  the engine.
\<close>

type_synonym ledger = "(string \<rightharpoonup> position) \<times> (string \<rightharpoonup> position)"

definition adopted :: "real \<Rightarrow> exchange_position \<Rightarrow> position" where
  \<comment> \<open>the \<^verbatim>\<open>Position\<close> built for a futures position the engine has no record of\<close>
  "adopted now e =
     \<lparr>pos_symbol = ep_symbol e, pos_spot_qty = 0,
      pos_futures_qty = (if ep_side e = Buy then ep_size e else - ep_size e),
      pos_spot_avg_price = 0, pos_futures_avg_price = ep_avgPrice e,
      pos_unrealized_pnl = ep_unrealisedPnl e, pos_funding_paid = 0,
      pos_entry_time = now, pos_leverage = 1, pos_total_investment = 0,
      pos_spot_investment = 0, pos_futures_investment = 0\<rparr>"

fun linear_loop :: "real \<Rightarrow> exchange_position option list \<Rightarrow> ledger \<Rightarrow> ledger" where
  "linear_loop now [] l = l"
| "linear_loop now (None # es) l = l"
| "linear_loop now (Some e # es) (self, actual) =
     (if 0 < ep_size e then
        (case self (ep_symbol e) of
           Some pos \<Rightarrow>
             (let pos' = pos\<lparr>pos_futures_qty :=
                               (if ep_side e = Buy then ep_size e else - ep_size e),
                             pos_futures_avg_price := ep_avgPrice e,
                             pos_unrealized_pnl := ep_unrealisedPnl e\<rparr>
              in linear_loop now es
                   (self(ep_symbol e \<mapsto> pos'), actual(ep_symbol e \<mapsto> pos')))
         | None \<Rightarrow> linear_loop now es (self, actual(ep_symbol e \<mapsto> adopted now e)))
      else linear_loop now es (self, actual))"

fun balance_loop :: "(string \<times> real) option list \<Rightarrow> ledger \<Rightarrow> ledger" where
  "balance_loop [] l = l"
| "balance_loop (None # cs) l = l"
| "balance_loop (Some (coin_name, balance) # cs) (self, actual) =
     (if coin_name \<noteq> ''USDT'' \<and> 0 < balance then
        (let sym = coin_name @ ''USDT''
         in case actual sym of
              Some pos \<Rightarrow>
                balance_loop cs (self, actual(sym \<mapsto> pos\<lparr>pos_spot_qty := balance\<rparr>))
            | None \<Rightarrow>
                (case self sym of
                   Some pos \<Rightarrow>
                     (let pos' = pos\<lparr>pos_spot_qty := balance\<rparr>
                      in balance_loop cs (self(sym \<mapsto> pos'), actual(sym \<mapsto> pos')))
                 | None \<Rightarrow> balance_loop cs (self, actual)))
      else balance_loop cs (self, actual))"

definition get_positions_summary :: "client \<Rightarrow> real \<Rightarrow> engine \<Rightarrow> engine" where
  "get_positions_summary c now st =
     (let l0 = (positions st, Map.empty);
          l1 = (case get_positions c of None \<Rightarrow> l0 | Some es \<Rightarrow> linear_loop now es l0);
          l2 = (case get_account_balance c of None \<Rightarrow> l1 | Some cs \<Rightarrow> balance_loop cs l1)
      in st\<lparr>positions := snd l2\<rparr>)"

subsection \<open>Funding income\<close>

definition calculate_funding_income :: "client \<Rightarrow> real \<Rightarrow> position \<Rightarrow> real \<Rightarrow> real" where
  "calculate_funding_income c now pos close_quantity =
     (case get_funding_rate c (pos_symbol pos) of
        None \<Rightarrow> 0
      | Some funding_rate \<Rightarrow>
          (if funding_rate = 0 then 0
           else
             (let holding_hours = (now - pos_entry_time pos) / 3600;
                  funding_periods = py_int (holding_hours / 8)
              in if funding_periods \<le> 0 then 0
                 else
                   (let futures_value = \<bar>pos_futures_qty pos\<bar> * pos_futures_avg_price pos
                    in futures_value * funding_rate * of_int funding_periods))))"

subsection \<open>Entry: \<^verbatim>\<open>one_click_arbitrage\<close>\<close>

text \<open>
  The operation is modelled in the three stretches of its body: the checks and the sizing
  up to the two validations (no order is sent), the orders, and the bookkeeping of the
  success path. Every \<^verbatim>\<open>return TradingResult(False, ...)\<close> and the \<^verbatim>\<open>except\<close> clause are
  the \<open>Inl\<close> results of the first two.
\<close>

definition quantize :: "real \<Rightarrow> real \<Rightarrow> nat \<Rightarrow> py_error + real" where
  \<comment> \<open>\<^verbatim>\<open>round(round(qty / step) * step, precision)\<close>\<close>
  "quantize qty step precision =
     (if step = 0 then Inl ZeroDivisionError
      else Inr (py_round_nd (of_int (py_round (qty / step)) * step) precision))"

record entry_plan =
  plan_spot_amount :: real
  plan_futures_amount :: real
  plan_spot_price :: real
  plan_futures_price :: real
  plan_raw_spot_qty :: real
  plan_raw_futures_qty :: real
  plan_spot_qty :: real
  plan_futures_qty :: real

definition size_entry :: "tips \<Rightarrow> real \<Rightarrow> real \<Rightarrow> real \<Rightarrow> real \<Rightarrow> message + entry_plan" where
  \<comment> \<open>lines 344 to 364: raw quantities, quantization, the check for a quantity \<open>\<le> 0\<close>\<close>
  "size_entry t spot_amount futures_amount spot_price futures_price =
     (let raw_spot_qty = spot_amount / spot_price;
          raw_futures_qty = futures_amount / futures_price
      in case quantize raw_spot_qty (qty_step (spot_rules t)) (qty_precision (spot_rules t)) of
           Inl e \<Rightarrow> Inl (Arbitrage_exception e)
         | Inr spot_qty \<Rightarrow>
             (case quantize raw_futures_qty (qty_step (linear_rules t))
                     (qty_precision (linear_rules t)) of
                Inl e \<Rightarrow> Inl (Arbitrage_exception e)
              | Inr futures_qty \<Rightarrow>
                  (if spot_qty \<le> 0 \<or> futures_qty \<le> 0 then Inl Invalid_quantity
                   else Inr \<lparr>plan_spot_amount = spot_amount, plan_futures_amount = futures_amount,
                             plan_spot_price = spot_price, plan_futures_price = futures_price,
                             plan_raw_spot_qty = raw_spot_qty,
                             plan_raw_futures_qty = raw_futures_qty,
                             plan_spot_qty = spot_qty, plan_futures_qty = futures_qty\<rparr>)))"

definition plan_entry ::
  "client \<Rightarrow> real \<Rightarrow> rules_manager \<Rightarrow> string \<Rightarrow> real \<Rightarrow> int
     \<Rightarrow> (message + entry_plan) \<times> rules_manager" where
  "plan_entry c now rm symbol total_amount leverage =
     (case get_trading_tips c now rm symbol of
        (Inl e, rm1) \<Rightarrow> (Inl (Arbitrage_exception e), rm1)
      | (Inr t, rm1) \<Rightarrow>
          (if of_int leverage < (1::real) \<or> tips_max_leverage t < of_int leverage
           then (Inl Leverage_out_of_range, rm1)
           else if total_amount < min_investment t then (Inl Amount_below_minimum, rm1)
           else
             (case calculate_capital_allocation total_amount leverage of
                Inl e \<Rightarrow> (Inl (Arbitrage_exception e), rm1)
              | Inr (spot_amount, futures_amount) \<Rightarrow>
                  (if price_missing (get_spot_price c symbol)
                      \<or> price_missing (get_futures_price c symbol)
                   then (Inl Price_unavailable, rm1)
                   else
                     (case size_entry t spot_amount futures_amount
                             (the (get_spot_price c symbol))
                             (the (get_futures_price c symbol)) of
                        Inl m \<Rightarrow> (Inl m, rm1)
                      | Inr p \<Rightarrow>
                          (case validate_order_params c now rm1 symbol
                                  (plan_spot_qty p) (plan_spot_price p) Spot of
                             (v1, rm2) \<Rightarrow>
                               (if v1 \<noteq> Valid then (Inl (Spot_params_invalid v1), rm2)
                                else
                                  (case validate_order_params c now rm2 symbol
                                          (plan_futures_qty p) (plan_futures_price p) Linear of
                                     (v2, rm3) \<Rightarrow>
                                       (if v2 \<noteq> Valid
                                        then (Inl (Futures_params_invalid v2), rm3)
                                        else (Inr p, rm3))))))))))"

definition place_entry_orders ::
  "client \<Rightarrow> string \<Rightarrow> int \<Rightarrow> entry_plan \<Rightarrow> message + string option \<times> string option" where
  \<comment> \<open>lines 390 to 442: spot buy by quote amount, leverage, futures sell by base quantity\<close>
  "place_entry_orders c symbol leverage p =
     (case place_order c symbol Buy (plan_spot_amount p) Spot of
        Order_raised \<Rightarrow> Inl (Arbitrage_exception TransportError)
      | Order_rejected error_msg \<Rightarrow> Inl (Spot_buy_failed error_msg)
      | Order_ok spot_order_id \<Rightarrow>
          (case set_leverage c symbol leverage of
             None \<Rightarrow> Inl (Arbitrage_exception TransportError)
           | Some _ \<Rightarrow>
               (case place_order c symbol Sell (plan_futures_qty p) Linear of
                  Order_raised \<Rightarrow> Inl (Arbitrage_exception TransportError)
                | Order_rejected error_msg \<Rightarrow>
                    (case spot_order_id of
                       None \<Rightarrow> Inl (Futures_sell_failed error_msg)
                     | Some oid \<Rightarrow>
                         (if oid = [] then Inl (Futures_sell_failed error_msg)
                          else
                            (case cancel_order c symbol oid of
                               None \<Rightarrow> Inl (Arbitrage_exception TransportError)
                             | Some _ \<Rightarrow> Inl (Futures_sell_failed error_msg))))
                | Order_ok futures_order_id \<Rightarrow> Inr (spot_order_id, futures_order_id))))"

definition entry_position :: "real \<Rightarrow> string \<Rightarrow> real \<Rightarrow> int \<Rightarrow> entry_plan \<Rightarrow> position" where
  \<comment> \<open>the \<^verbatim>\<open>Position\<close> of lines 458 to 471\<close>
  "entry_position now symbol total_amount leverage p =
     \<lparr>pos_symbol = symbol, pos_spot_qty = plan_spot_qty p,
      pos_futures_qty = plan_futures_qty p,
      pos_spot_avg_price = plan_spot_price p, pos_futures_avg_price = plan_futures_price p,
      pos_unrealized_pnl = 0, pos_funding_paid = 0, pos_entry_time = now,
      pos_leverage = leverage, pos_total_investment = total_amount,
      pos_spot_investment = plan_spot_amount p,
      pos_futures_investment = plan_futures_amount p\<rparr>"

definition one_click_arbitrage ::
  "client \<Rightarrow> real \<Rightarrow> engine \<Rightarrow> string \<Rightarrow> real \<Rightarrow> int \<Rightarrow> trading_result \<times> engine" where
  "one_click_arbitrage c now st symbol total_amount leverage =
     (case plan_entry c now (rules_manager st) symbol total_amount leverage of
        (Inl m, rm) \<Rightarrow> (failed m, st\<lparr>rules_manager := rm\<rparr>)
      | (Inr p, rm) \<Rightarrow>
          (case place_entry_orders c symbol leverage p of
             Inl m \<Rightarrow> (failed m, st\<lparr>rules_manager := rm\<rparr>)
           | Inr (spot_order_id, futures_order_id) \<Rightarrow>
               (\<lparr>tr_success = True, tr_message = Arbitrage_ok,
                 tr_spot_order_id = spot_order_id,
                 tr_futures_order_id = futures_order_id,
                 tr_spot_qty = plan_spot_qty p, tr_futures_qty = plan_futures_qty p,
                 tr_spot_price = plan_spot_price p, tr_futures_price = plan_futures_price p,
                 tr_total_cost = total_amount\<rparr>,
                st\<lparr>rules_manager := rm,
                   positions := (positions st)
                     (symbol \<mapsto> entry_position now symbol total_amount leverage p)\<rparr>)))"


subsection \<open>Exit: \<^verbatim>\<open>close_position\<close>\<close>

definition close_total_pnl ::
  "client \<Rightarrow> real \<Rightarrow> position \<Rightarrow> real \<Rightarrow> real \<Rightarrow> real \<Rightarrow> real" where
  \<comment> \<open>lines 559 to 588: the two leg results after fees, plus the funding income\<close>
  "close_total_pnl c now pos spot_price futures_price close_spot_qty =
     (let spot_gross_pnl = (spot_price - pos_spot_avg_price pos) * close_spot_qty;
          spot_buy_amount = pos_spot_avg_price pos * close_spot_qty;
          spot_sell_amount = spot_price * close_spot_qty;
          spot_fees = (spot_buy_amount + spot_sell_amount) * SPOT_FEE_RATE;
          spot_pnl = spot_gross_pnl - spot_fees;
          futures_gross_pnl =
            (pos_futures_avg_price pos - futures_price) * \<bar>pos_futures_qty pos\<bar>;
          futures_short_amount = pos_futures_avg_price pos * \<bar>pos_futures_qty pos\<bar>;
          futures_buy_amount = futures_price * \<bar>pos_futures_qty pos\<bar>;
          futures_fees = (futures_short_amount + futures_buy_amount) * FUTURES_FEE_RATE;
          futures_pnl = futures_gross_pnl - futures_fees;
          funding_income = calculate_funding_income c now pos close_spot_qty
      in spot_pnl + futures_pnl + funding_income)"

definition settle_close ::
  "client \<Rightarrow> real \<Rightarrow> engine \<Rightarrow> string \<Rightarrow> position \<Rightarrow> real \<Rightarrow> real \<Rightarrow> real \<Rightarrow> real
     \<Rightarrow> trading_result \<times> engine" where
  \<comment> \<open>lines 559 to 650, reached once both orders are accepted: the statements in the
      source's order, \<open>pos'\<close> being the \<^verbatim>\<open>Position\<close> object after lines 603 and 604\<close>
  "settle_close c now st symbol pos spot_price futures_price close_spot_qty close_futures_qty =
     (let total_pnl = close_total_pnl c now pos spot_price futures_price close_spot_qty;
          pos' = pos\<lparr>pos_spot_qty := pos_spot_qty pos - close_spot_qty,
                      pos_futures_qty := 0\<rparr>;
          closed =
            \<lparr>cp_symbol = symbol,
             cp_spot_qty = pos_spot_qty pos' + close_spot_qty,
             cp_futures_qty = pos_futures_qty pos',
             cp_spot_avg_price = pos_spot_avg_price pos',
             cp_futures_avg_price = pos_futures_avg_price pos',
             cp_close_spot_qty = close_spot_qty,
             cp_close_futures_qty = close_futures_qty,
             cp_close_spot_price = spot_price,
             cp_close_futures_price = futures_price,
             cp_total_pnl = total_pnl,
             cp_entry_time = pos_entry_time pos',
             cp_close_time = now,
             cp_leverage = pos_leverage pos',
             cp_total_investment = pos_total_investment pos',
             cp_spot_investment = pos_spot_investment pos',
             cp_futures_investment = pos_futures_investment pos',
             cp_funding_paid = pos_funding_paid pos'\<rparr>;
          ps = (positions st)(symbol \<mapsto> pos');
          ps' = (if pos_futures_qty pos' = 0 \<and> pos_spot_qty pos' < 0.001
                 then ps(symbol := None)
                 else if pos_futures_qty pos' = 0 then ps(symbol := None)
                 else ps)
      in (\<lparr>tr_success = True, tr_message = Close_ok,
           tr_spot_order_id = None, tr_futures_order_id = None,
           tr_spot_qty = close_spot_qty, tr_futures_qty = close_futures_qty,
           tr_spot_price = spot_price, tr_futures_price = futures_price,
           tr_total_cost = 0\<rparr>,
          st\<lparr>positions := ps', closed_positions := closed_positions st @ [closed]\<rparr>))"

definition close_orders ::
  "client \<Rightarrow> string \<Rightarrow> tips \<Rightarrow> real \<Rightarrow> real \<Rightarrow> message + unit" where
  \<comment> \<open>lines 531 to 557: the spot sell, then the futures buy that covers the short\<close>
  "close_orders c symbol t close_spot_qty close_futures_qty =
     (case place_order c symbol Sell
             (py_round_nd close_spot_qty (qty_precision (spot_rules t))) Spot of
        Order_raised \<Rightarrow> Inl (Close_exception TransportError)
      | Order_rejected m \<Rightarrow> Inl (Spot_sell_failed m)
      | Order_ok _ \<Rightarrow>
          (case place_order c symbol Buy
                  (py_round_nd close_futures_qty (qty_precision (linear_rules t))) Linear of
             Order_raised \<Rightarrow> Inl (Close_exception TransportError)
           | Order_rejected m \<Rightarrow> Inl (Futures_buy_failed m)
           | Order_ok _ \<Rightarrow> Inr ()))"

definition close_position ::
  "client \<Rightarrow> real \<Rightarrow> engine \<Rightarrow> string \<Rightarrow> trading_result \<times> engine" where
  "close_position c now st0 symbol =
     (let st = get_positions_summary c now st0
      in case positions st symbol of
           None \<Rightarrow> (failed Position_not_found, st)
         | Some pos \<Rightarrow>
             (if price_missing (get_spot_price c symbol)
                 \<or> price_missing (get_futures_price c symbol)
              then (failed Price_unavailable, st)
              else
                (case get_trading_tips c now (rules_manager st) symbol of
                   (Inl e, rm) \<Rightarrow> (failed (Close_exception e), st\<lparr>rules_manager := rm\<rparr>)
                 | (Inr t, rm) \<Rightarrow>
                     (let spot_price = the (get_spot_price c symbol);
                          futures_price = the (get_futures_price c symbol);
                          futures_qty = \<bar>pos_futures_qty pos\<bar>;
                          close_spot_qty = min (pos_spot_qty pos) futures_qty;
                          close_futures_qty = \<bar>pos_futures_qty pos\<bar>
                      in case close_orders c symbol t close_spot_qty close_futures_qty of
                           Inl m \<Rightarrow> (failed m, st\<lparr>rules_manager := rm\<rparr>)
                         | Inr _ \<Rightarrow>
                             settle_close c now (st\<lparr>rules_manager := rm\<rparr>) symbol pos
                               spot_price futures_price close_spot_qty close_futures_qty))))"


section \<open>Scenarios\<close>

text \<open>
  Concrete exchanges and ledgers on which the operations are run. \<open>sample_client\<close> is a
  live (non-demo) exchange whose instrument queries fail, so that both markets fall back
  to the default rules; it quotes 100 for both markets, accepts every order, and reports
  a short of 2.5 BTC and a wallet holding 5 BTC. \<open>rejecting_client c\<close> is \<open>c\<close> refusing
  every order on the futures market. \<open>entered\<close> is the engine after one entry on a fresh
  engine, and \<open>entered_position\<close> is its position once reconciled with the exchange.
  \<open>residual_engine\<close> holds one position whose spot leg exceeds its short by 0.0005, and
  \<open>residual_client c\<close> is \<open>c\<close> reporting that short and that wallet balance.
  \<open>long_client\<close> reports a long of 3 BTC with 3 BTC in the wallet, and on the futures market
  accepts one order only, a buy of 3.
\<close>

definition sample_client :: client where
  "sample_client =
     \<lparr>demo = False,
      get_instruments_info = (\<lambda>_ _. None),
      get_spot_price = (\<lambda>_. Some 100),
      get_futures_price = (\<lambda>_. Some 100),
      get_funding_rate = (\<lambda>_. Some 0.0001),
      place_order = (\<lambda>_ _ _ _. Order_ok (Some ''1'')),
      set_leverage = (\<lambda>_ _. Some True),
      cancel_order = (\<lambda>_ _. Some True),
      get_positions = Some [Some \<lparr>ep_symbol = ''BTCUSDT'', ep_size = 2.5, ep_side = Sell,
                                  ep_avgPrice = 100, ep_unrealisedPnl = 0\<rparr>],
      get_account_balance = Some [Some (''USDT'', 500), Some (''BTC'', 5)]\<rparr>"

definition rejecting_client :: "client \<Rightarrow> client" where
  "rejecting_client c =
     c\<lparr>place_order :=
         (\<lambda>_ _ _ cat. case cat of Spot \<Rightarrow> Order_ok (Some ''1'')
                                | Linear \<Rightarrow> Order_rejected ''rejected'')\<rparr>"

definition entered :: engine where
  "entered = snd (one_click_arbitrage sample_client 10000 new_engine ''BTCUSDT'' 1000 2)"

definition entered_position :: position where
  "entered_position =
     \<lparr>pos_symbol = ''BTCUSDT'', pos_spot_qty = 5, pos_futures_qty = - (5 / 2),
      pos_spot_avg_price = 100, pos_futures_avg_price = 100,
      pos_unrealized_pnl = 0, pos_funding_paid = 0, pos_entry_time = 10000,
      pos_leverage = 2, pos_total_investment = 1000,
      pos_spot_investment = 500, pos_futures_investment = 250\<rparr>"

definition residual_position :: position where
  "residual_position =
     \<lparr>pos_symbol = ''BTCUSDT'', pos_spot_qty = 1.0005, pos_futures_qty = - 1,
      pos_spot_avg_price = 100, pos_futures_avg_price = 100,
      pos_unrealized_pnl = 0, pos_funding_paid = 0, pos_entry_time = 10000,
      pos_leverage = 1, pos_total_investment = 200.05,
      pos_spot_investment = 100.05, pos_futures_investment = 100\<rparr>"

definition residual_engine :: engine where
  "residual_engine = new_engine\<lparr>positions := [''BTCUSDT'' \<mapsto> residual_position]\<rparr>"

definition residual_client :: "client \<Rightarrow> client" where
  "residual_client c =
     c\<lparr>get_positions := Some [Some \<lparr>ep_symbol = ''BTCUSDT'', ep_size = 1, ep_side = Sell,
                                    ep_avgPrice = 100, ep_unrealisedPnl = 0\<rparr>],
       get_account_balance := Some [Some (''BTC'', 1.0005)]\<rparr>"


section \<open>Properties\<close>

lemmas rules_defs =
  get_trading_rules_def fetch_rules_def get_spot_rules_def get_linear_rules_def
  is_cache_valid_def cache_duration_def get_default_rules_def new_rules_manager_def
  get_min_investment_amount_def get_trading_tips_def validate_order_params_def
  check_order_def py_round_nd_def py_round_def py_fmod_def Let_def

lemmas entry_defs =
  plan_entry_def calculate_capital_allocation_def price_missing_def size_entry_def
  quantize_def one_click_arbitrage_def new_engine_def place_entry_orders_def
  entry_position_def failed_def

lemmas close_defs =
  close_position_def get_positions_summary_def adopted_def close_orders_def
  settle_close_def close_total_pnl_def calculate_funding_income_def py_int_def
  SPOT_FEE_RATE_def FUTURES_FEE_RATE_def price_missing_def failed_def new_engine_def

lemmas scenario_defs =
  sample_client_def rejecting_client_def residual_position_def residual_engine_def
  residual_client_def

subsection \<open>Rounding\<close>



subsection \<open>Risk score\<close>

text \<open>
  C7. For all inputs \<open>price_diff_percent\<close> and \<open>funding_rate\<close>, the risk score equals
  \<open>min(|price_diff_percent| / 2, 1) * 0.7 + max(0, -funding_rate * 100) * 0.3\<close> clamped
  to 1, and it lies in the interval from 0 to 1.
\<close>

theorem risk_score_formula_and_range:
  "calculate_risk_score p f = min (min (\<bar>p\<bar> / 2) 1 * 0.7 + max 0 (- f * 100) * 0.3) 1
   \<and> 0 \<le> calculate_risk_score p f \<and> calculate_risk_score p f \<le> 1"
  by (simp add: calculate_risk_score_def Let_def min_def max_def)

lemma capital_allocation_scenario_C:
  "calculate_capital_allocation 1000 2 = Inr (500, 250)"
  by (simp add: calculate_capital_allocation_def)

subsection \<open>The rules cache and the minimum investment\<close>

lemma served_from_cache_returns_entry:
  "served_from_cache now rm symbol force_refresh \<Longrightarrow>
     get_trading_rules c now rm symbol force_refresh = (the (rules_cache rm symbol), rm)"
  by (auto simp: served_from_cache_def get_trading_rules_def)

lemma served_from_cache_shared_clock:
  "served_from_cache now rm symbol force_refresh \<Longrightarrow> now - cache_time rm < 3600"
  by (simp add: served_from_cache_def is_cache_valid_def cache_duration_def)

text \<open>
  C4 says that rules served from the cache were fetched at most 3600 seconds before the
  call. The cache keeps one time stamp for all symbols, and every fetch of any symbol
  renews it. On a fresh manager, BTCUSDT is fetched at time 10000 and ETHUSDT at time
  13000; the request for BTCUSDT at time 16000 is served from the cache, with the rules
  fetched at time 10000, which are 6000 seconds old. This holds for every exchange \<open>c\<close>.
\<close>

theorem stale_rules_served_from_cache:
  "served_from_cache 16000
     (snd (get_trading_rules c 13000
        (snd (get_trading_rules c 10000 new_rules_manager ''BTCUSDT'' False))
        ''ETHUSDT'' False))
     ''BTCUSDT'' False
   \<and> last_updated (fst (get_trading_rules c 16000
        (snd (get_trading_rules c 13000
           (snd (get_trading_rules c 10000 new_rules_manager ''BTCUSDT'' False))
           ''ETHUSDT'' False))
        ''BTCUSDT'' False)) = 10000
   \<and> cache_duration < 16000 - 10000"
  by (simp add: served_from_cache_def get_trading_rules_def is_cache_valid_def
      cache_duration_def new_rules_manager_def fetch_rules_def Let_def)

text \<open>
  C3 says that \<open>min_investment\<close> is the smallest total for which both legs clear their
  minimum order amounts, times 1.2, rounded to 2 decimals. On the live exchange with the
  default rules (both minimum order amounts are 5) and leverage 1 the function returns 6.
  An entry with the total 6 passes the minimum-investment gate, allocates 3 to the spot
  leg, and is refused by the validation of the spot order, whose amount is below the
  minimum order amount.
\<close>

theorem min_investment_below_spot_minimum:
  "fst (get_min_investment_amount sample_client 10000 new_rules_manager ''BTCUSDT'' 1) = Inr 6
   \<and> calculate_capital_allocation 6 1 = Inr (3, 3)
   \<and> tr_message (fst (one_click_arbitrage sample_client 10000 new_engine ''BTCUSDT'' 6 1))
       = Spot_params_invalid Amount_below_min"
  by (simp add: rules_defs sample_client_def entry_defs)

subsection \<open>Entry\<close>

lemma size_entry_raw_quantities:
  "size_entry t spot_amount futures_amount spot_price futures_price = Inr p \<Longrightarrow>
     plan_raw_spot_qty p = spot_amount / spot_price
     \<and> plan_raw_futures_qty p = futures_amount / futures_price"
  by (auto simp: size_entry_def Let_def split: sum.splits if_splits)

text \<open>
  C1 says that the raw quantities of the two legs, each the leg's allocated amount
  divided by the leg's price, are equal before quantization. The futures leg divides the
  margin, which is the spot amount divided by the leverage, by the futures price. With a
  total of 1000, leverage 2 and both prices at 100 the entry succeeds, the raw
  quantities are 5 and 2.5, and the stored position holds 5 on the spot leg and 2.5 on
  the futures leg; the step size of both markets is 0.001.
\<close>

theorem entry_leg_quantities_differ:
  "tr_success (fst (one_click_arbitrage sample_client 10000 new_engine ''BTCUSDT'' 1000 2))
   \<and> map_option (\<lambda>p. (pos_spot_qty p, pos_futures_qty p))
        (positions (snd (one_click_arbitrage sample_client 10000 new_engine ''BTCUSDT'' 1000 2))
           ''BTCUSDT'')
       = Some (5, 5 / 2)
   \<and> map_sum id (\<lambda>p. (plan_raw_spot_qty p, plan_raw_futures_qty p))
        (fst (plan_entry sample_client 10000 new_rules_manager ''BTCUSDT'' 1000 2))
       = Inr (5, 5 / 2)"
  by (simp add: rules_defs sample_client_def entry_defs)


text \<open>
  C9. Whenever \<open>one_click_arbitrage\<close> returns a failed result, for whichever reason, the
  map of live positions is the one before the call. When it succeeds, the spot buy and
  the futures sell were both accepted by the exchange, and the map differs from the old
  one in the entry of the symbol only, which now holds the new position.
\<close>

theorem failed_entry_keeps_positions:
  "(\<not> tr_success (fst (one_click_arbitrage c now st symbol T L)) \<longrightarrow>
      positions (snd (one_click_arbitrage c now st symbol T L)) = positions st)
   \<and> (tr_success (fst (one_click_arbitrage c now st symbol T L)) \<longrightarrow>
       (\<exists>p a b. place_order c symbol Buy (plan_spot_amount p) Spot = Order_ok a
         \<and> place_order c symbol Sell (plan_futures_qty p) Linear = Order_ok b
         \<and> positions (snd (one_click_arbitrage c now st symbol T L))
             = (positions st)(symbol \<mapsto> entry_position now symbol T L p)))"
  by (auto simp: one_click_arbitrage_def failed_def place_entry_orders_def
      split: prod.splits sum.splits order_response.splits option.splits if_splits)

theorem failed_entry_keeps_positions_witness:
  "\<not> tr_success (fst (one_click_arbitrage (rejecting_client sample_client) 10000
                         residual_engine ''ETHUSDT'' 1000 2))
   \<and> positions (snd (one_click_arbitrage (rejecting_client sample_client) 10000
                         residual_engine ''ETHUSDT'' 1000 2))
       = positions residual_engine"
proof -
  have "\<not> tr_success (fst (one_click_arbitrage (rejecting_client sample_client) 10000
                         residual_engine ''ETHUSDT'' 1000 2))"
    by (simp add: rules_defs entry_defs scenario_defs)
  with failed_entry_keeps_positions
         [of "rejecting_client sample_client" 10000 residual_engine "''ETHUSDT''" 1000 2]
  show ?thesis by blast
qed

lemma entry_keeps_history:
  "closed_positions (snd (one_click_arbitrage c now st symbol T L)) = closed_positions st"
  by (simp add: one_click_arbitrage_def split: prod.splits sum.splits)

subsection \<open>Exit\<close>


lemma settle_close_result:
  "tr_success (fst (settle_close c now st symbol pos sp fp q fq))"
  "tr_futures_qty (fst (settle_close c now st symbol pos sp fp q fq)) = fq"
  by (simp_all add: settle_close_def Let_def)

lemma settle_close_history:
  "butlast (closed_positions (snd (settle_close c now st symbol pos sp fp q fq))) =
     closed_positions st"
  "closed_positions (snd (settle_close c now st symbol pos sp fp q fq)) \<noteq> []"
  "cp_futures_qty (last (closed_positions (snd (settle_close c now st symbol pos sp fp q fq)))) = 0"
  "cp_spot_qty (last (closed_positions (snd (settle_close c now st symbol pos sp fp q fq)))) = pos_spot_qty pos"
  "cp_total_pnl (last (closed_positions (snd (settle_close c now st symbol pos sp fp q fq)))) =
     close_total_pnl c now pos sp fp q"
  by (simp_all add: settle_close_def Let_def)

lemma refresh_keeps_history:
  "closed_positions (get_positions_summary c now st) = closed_positions st"
  by (simp add: get_positions_summary_def Let_def)

lemma close_success_settle:
  assumes "tr_success (fst (close_position c now st symbol))"
  shows "\<exists>pos. positions (get_positions_summary c now st) symbol = Some pos
     \<and> close_position c now st symbol =
         settle_close c now
           ((get_positions_summary c now st)
              \<lparr>rules_manager :=
                 snd (get_trading_tips c now
                        (rules_manager (get_positions_summary c now st)) symbol)\<rparr>)
           symbol pos (the (get_spot_price c symbol)) (the (get_futures_price c symbol))
           (min (pos_spot_qty pos) \<bar>pos_futures_qty pos\<bar>) \<bar>pos_futures_qty pos\<bar>"
proof (cases "positions (get_positions_summary c now st) symbol")
  case None
  with assms show ?thesis by (simp add: close_position_def Let_def failed_def)
next
  case (Some pos)
  show ?thesis
  proof (cases "price_missing (get_spot_price c symbol) \<or> price_missing (get_futures_price c symbol)")
    case True
    with assms Some show ?thesis by (simp add: close_position_def Let_def failed_def)
  next
    case False
    obtain t rm where tips: "get_trading_tips c now (rules_manager (get_positions_summary c now st)) symbol = (t, rm)"
      by (cases "get_trading_tips c now (rules_manager (get_positions_summary c now st)) symbol")
    show ?thesis
    proof (cases t)
      case (Inl e)
      with assms Some False tips show ?thesis by (simp add: close_position_def Let_def failed_def)
    next
      case (Inr tp)
      show ?thesis
      proof (cases "close_orders c symbol tp (min (pos_spot_qty pos) \<bar>pos_futures_qty pos\<bar>) \<bar>pos_futures_qty pos\<bar>")
        case (Inl m)
        with assms Some False tips Inr show ?thesis by (simp add: close_position_def Let_def failed_def)
      next
        case (Inr u)
        with Some False tips \<open>t = Inr tp\<close> show ?thesis by (simp add: close_position_def Let_def)
      qed
    qed
  qed
qed

lemma close_failure_state:
  assumes "\<not> tr_success (fst (close_position c now st symbol))"
  shows "positions (snd (close_position c now st symbol))
           = positions (get_positions_summary c now st)
       \<and> closed_positions (snd (close_position c now st symbol)) = closed_positions st"
proof (cases "positions (get_positions_summary c now st) symbol")
  case None
  then show ?thesis
    by (simp add: close_position_def Let_def refresh_keeps_history)
next
  case (Some pos)
  show ?thesis
  proof (cases "price_missing (get_spot_price c symbol)
                \<or> price_missing (get_futures_price c symbol)")
    case True
    with Some show ?thesis
      by (simp add: close_position_def Let_def refresh_keeps_history)
  next
    case False
    obtain t rm where tips:
      "get_trading_tips c now (rules_manager (get_positions_summary c now st)) symbol = (t, rm)"
      by (cases "get_trading_tips c now (rules_manager (get_positions_summary c now st)) symbol")
    show ?thesis
    proof (cases t)
      case (Inl e)
      with Some False tips show ?thesis
        by (simp add: close_position_def Let_def refresh_keeps_history)
    next
      case (Inr tp)
      show ?thesis
      proof (cases "close_orders c symbol tp
                      (min (pos_spot_qty pos) \<bar>pos_futures_qty pos\<bar>) \<bar>pos_futures_qty pos\<bar>")
        case (Inl m)
        with Some False tips \<open>t = Inr tp\<close> show ?thesis
          by (simp add: close_position_def Let_def refresh_keeps_history)
      next
        case (Inr u)
        with Some False tips \<open>t = Inr tp\<close>
        have "tr_success (fst (close_position c now st symbol))"
          by (simp add: close_position_def Let_def settle_close_result)
        with assms show ?thesis by simp
      qed
    qed
  qed
qed

lemma close_success_orders:
  assumes "tr_success (fst (close_position c now st symbol))"
  shows "\<exists>q1 q2 a b. place_order c symbol Sell q1 Spot = Order_ok a
           \<and> place_order c symbol Buy q2 Linear = Order_ok b"
  using assms
  by (auto simp: close_position_def Let_def failed_def close_orders_def
      split: prod.splits sum.splits option.splits if_splits order_response.splits)

lemma close_extends_history:
  "\<exists>xs. closed_positions (snd (close_position c now st symbol)) = closed_positions st @ xs"
proof (cases "tr_success (fst (close_position c now st symbol))")
  case True
  from close_success_settle [OF True] obtain pos where
    "close_position c now st symbol =
       settle_close c now
         ((get_positions_summary c now st)
            \<lparr>rules_manager :=
               snd (get_trading_tips c now
                      (rules_manager (get_positions_summary c now st)) symbol)\<rparr>)
         symbol pos (the (get_spot_price c symbol)) (the (get_futures_price c symbol))
         (min (pos_spot_qty pos) \<bar>pos_futures_qty pos\<bar>) \<bar>pos_futures_qty pos\<bar>"
    by blast
  then show ?thesis
    by (simp add: settle_close_def Let_def refresh_keeps_history)
next
  case False
  from close_failure_state [OF False] show ?thesis by simp
qed



lemma entered_state:
  "positions entered = [''BTCUSDT'' \<mapsto>
     \<lparr>pos_symbol = ''BTCUSDT'', pos_spot_qty = 5, pos_futures_qty = 5 / 2,
      pos_spot_avg_price = 100, pos_futures_avg_price = 100,
      pos_unrealized_pnl = 0, pos_funding_paid = 0, pos_entry_time = 10000,
      pos_leverage = 2, pos_total_investment = 1000,
      pos_spot_investment = 500, pos_futures_investment = 250\<rparr>]"
  "closed_positions entered = []"
  "rules_manager entered =
     \<lparr>rules_cache = [''BTCUSDT'' \<mapsto>
        \<lparr>rules_symbol = ''BTCUSDT'', spot = get_default_rules,
         linear = get_default_rules, last_updated = 10000\<rparr>],
      cache_time = 10000\<rparr>"
  by (simp_all add: entered_def rules_defs sample_client_def entry_defs)

lemma entered_refreshed:
  "positions (get_positions_summary sample_client 10000 entered) ''BTCUSDT''
     = Some entered_position"
  by (simp add: get_positions_summary_def entered_state sample_client_def Let_def
      entered_position_def)

lemma entered_close_success:
  "tr_success (fst (close_position sample_client 10000 entered ''BTCUSDT''))"
  apply (simp add: close_position_def entered_refreshed Let_def)
  apply (simp add: close_defs rules_defs entered_state sample_client_def entered_position_def)
  done






text \<open>
  C5. Let a close succeed on a position whose entry prices are the current spot and
  futures prices, with no funding period elapsed since entry (the holding time divided
  by 8 hours truncates to 0 or less). Then the realized P&L of the record appended to the
  history is minus the sum of the spot fees, 0.1% of entry notional plus exit notional
  of the spot quantity sold, and the futures fees, 0.055% of entry notional plus exit
  notional of the futures quantity covered. The position is the one the ledger holds
  after the reconciliation that opens the operation.
\<close>

theorem round_trip_pure_fee_loss:
  assumes "tr_success (fst (close_position c now st symbol))"
    and "positions (get_positions_summary c now st) symbol = Some pos"
    and "get_spot_price c symbol = Some (pos_spot_avg_price pos)"
    and "get_futures_price c symbol = Some (pos_futures_avg_price pos)"
    and "py_int ((now - pos_entry_time pos) / 3600 / 8) \<le> 0"
  shows "cp_total_pnl (last (closed_positions (snd (close_position c now st symbol)))) =
     - (let close_spot_qty = min (pos_spot_qty pos) \<bar>pos_futures_qty pos\<bar>;
            spot_fees = (0.1 / 100) * (pos_spot_avg_price pos * close_spot_qty
                                       + pos_spot_avg_price pos * close_spot_qty);
            futures_fees = (0.055 / 100) * (pos_futures_avg_price pos * \<bar>pos_futures_qty pos\<bar>
                                       + pos_futures_avg_price pos * \<bar>pos_futures_qty pos\<bar>)
        in spot_fees + futures_fees)"
proof -
  from close_success_settle [OF assms(1)] assms(2)
  have "cp_total_pnl (last (closed_positions (snd (close_position c now st symbol)))) =
     close_total_pnl c now pos (the (get_spot_price c symbol))
       (the (get_futures_price c symbol)) (min (pos_spot_qty pos) \<bar>pos_futures_qty pos\<bar>)"
    by (auto simp: settle_close_history)
  also have "\<dots> = - (let close_spot_qty = min (pos_spot_qty pos) \<bar>pos_futures_qty pos\<bar>;
            spot_fees = (0.1 / 100) * (pos_spot_avg_price pos * close_spot_qty
                                       + pos_spot_avg_price pos * close_spot_qty);
            futures_fees = (0.055 / 100) * (pos_futures_avg_price pos * \<bar>pos_futures_qty pos\<bar>
                                       + pos_futures_avg_price pos * \<bar>pos_futures_qty pos\<bar>)
        in spot_fees + futures_fees)"
    using assms(3,4,5)
    by (simp add: close_total_pnl_def calculate_funding_income_def Let_def
        SPOT_FEE_RATE_def FUTURES_FEE_RATE_def split: option.splits)
  finally show ?thesis .
qed

theorem round_trip_pure_fee_loss_witness:
  "tr_success (fst (close_position sample_client 10000 entered ''BTCUSDT''))
   \<and> cp_total_pnl (last (closed_positions
        (snd (close_position sample_client 10000 entered ''BTCUSDT'')))) = - (0.5 + 0.275)"
proof -
  have prices:
    "get_spot_price sample_client ''BTCUSDT'' = Some (pos_spot_avg_price entered_position)"
    "get_futures_price sample_client ''BTCUSDT'' = Some (pos_futures_avg_price entered_position)"
    by (simp_all add: sample_client_def entered_position_def)
  have periods: "py_int ((10000 - pos_entry_time entered_position) / 3600 / 8) \<le> 0"
    by (simp add: entered_position_def py_int_def)
  from round_trip_pure_fee_loss
         [OF entered_close_success entered_refreshed prices periods]
  have "cp_total_pnl (last (closed_positions
          (snd (close_position sample_client 10000 entered ''BTCUSDT'')))) = - (0.5 + 0.275)"
    by (simp add: entered_position_def Let_def)
  with entered_close_success show ?thesis by simp
qed

text \<open>
  C10. Whenever \<open>close_position\<close> returns a failed result, the history of closed
  positions is unchanged and the live positions are exactly those the reconciliation
  at the start of the operation produced: no quantity is decremented. The history
  changes only if the exchange accepted both a spot sell and a futures buy for the
  symbol.
\<close>

theorem failed_close_keeps_ledger:
  "(\<not> tr_success (fst (close_position c now st symbol)) \<longrightarrow>
      closed_positions (snd (close_position c now st symbol)) = closed_positions st
      \<and> positions (snd (close_position c now st symbol))
          = positions (get_positions_summary c now st))
   \<and> (closed_positions (snd (close_position c now st symbol)) \<noteq> closed_positions st \<longrightarrow>
        (\<exists>q1 q2 a b. place_order c symbol Sell q1 Spot = Order_ok a
           \<and> place_order c symbol Buy q2 Linear = Order_ok b))"
  using close_failure_state [of c now st symbol] close_success_orders [of c now st symbol]
  by blast

theorem failed_close_keeps_ledger_witness:
  "\<not> tr_success (fst (close_position (rejecting_client (residual_client sample_client))
                         10000 residual_engine ''BTCUSDT''))
   \<and> closed_positions (snd (close_position (rejecting_client (residual_client sample_client))
                         10000 residual_engine ''BTCUSDT'')) = closed_positions residual_engine
   \<and> positions (snd (close_position (rejecting_client (residual_client sample_client))
                         10000 residual_engine ''BTCUSDT''))
       = positions (get_positions_summary (rejecting_client (residual_client sample_client))
                      10000 residual_engine)"
proof -
  have refreshed:
    "positions (get_positions_summary (rejecting_client (residual_client sample_client))
                  10000 residual_engine) = [''BTCUSDT'' \<mapsto> residual_position]"
    by (simp add: get_positions_summary_def scenario_defs new_engine_def Let_def)
  have "\<not> tr_success (fst (close_position (rejecting_client (residual_client sample_client))
                         10000 residual_engine ''BTCUSDT''))"
    apply (simp add: close_position_def refreshed Let_def)
    apply (simp add: close_defs rules_defs scenario_defs)
    done
  with failed_close_keeps_ledger
         [of "rejecting_client (residual_client sample_client)" 10000 residual_engine
             "''BTCUSDT''"]
  show ?thesis by blast
qed

text \<open>
  C2 says that the record appended to the history by a successful close carries the
  position's spot and futures quantities as they were before the close changed them.
  The record is built after the position's futures quantity has been set to 0 and reads
  it from the position. On the engine after the entry above, the exchange reports the
  short of 2.5, so that the position holds 5 on the spot leg and -2.5 on the futures leg
  when the close starts. The close succeeds and appends one record: its spot quantity is
  5, its futures quantity is 0, and the quantities closed are 2.5 and 2.5.
\<close>

theorem closed_snapshot_futures_qty_zero:
  "map_option pos_futures_qty
     (positions (get_positions_summary sample_client 10000 entered) ''BTCUSDT'')
       = Some (- (5 / 2))
   \<and> tr_success (fst (close_position sample_client 10000 entered ''BTCUSDT''))
   \<and> map (\<lambda>cp. (cp_spot_qty cp, cp_futures_qty cp, cp_close_spot_qty cp, cp_close_futures_qty cp))
       (closed_positions (snd (close_position sample_client 10000 entered ''BTCUSDT'')))
       = [(5, 0, 5 / 2, 5 / 2)]"
  apply (simp add: close_position_def entered_refreshed Let_def)
  apply (simp add: close_defs rules_defs entered_state sample_client_def entered_position_def)
  done

subsection \<open>The capital allocation on doubles\<close>

lemma pow2_powr: "pow2 k = 2 powr (of_int k)"
proof (cases "0 \<le> k")
  case True
  with powr_realpow [of 2 "nat k"] show ?thesis by (simp add: pow2_def)
next
  case False
  with powr_realpow [of 2 "nat (- k)"] powr_minus [of 2 "real_of_int (- k)"]
  show ?thesis by (simp add: pow2_def inverse_eq_divide)
qed

lemma pow2_pos [simp]: "0 < pow2 k"
  by (simp add: pow2_powr)

lemma pow2_neq0 [simp]: "pow2 k \<noteq> 0"
  using pow2_pos [of k] by linarith

lemma abs_pow2 [simp]: "\<bar>pow2 k\<bar> = pow2 k"
  using pow2_pos [of k] by linarith



































end
